theory Spec2Isabelle
  imports Main "HOL-Library.Multiset"
begin

section \<open>Runtime values shared by the pages\<close>

subsection \<open>Strings and \<open>String.prototype.trim\<close>\<close>

text \<open>
  A string is a list of characters. \<open>trim\<close> removes white space and line terminators
  from both ends; in the one-byte range these are TAB, LF, VT, FF, CR, SPACE and NBSP.
\<close>

definition is_white_space :: "char \<Rightarrow> bool" where
  "is_white_space c = ((of_char c :: nat) \<in> {9, 10, 11, 12, 13, 32, 160})"

definition trim :: "string \<Rightarrow> string" where
  "trim s = rev (dropWhile is_white_space (rev (dropWhile is_white_space s)))"

subsection \<open>JSON values\<close>

text \<open>
  What \<open>JSON.parse\<close> can produce. Of a number only whether it is zero is ever observed
  (by \<open>||\<close>), so integers stand for numbers. An object lists its properties, keys distinct.
\<close>

datatype json =
    JNull
  | JBool bool
  | JNum int
  | JStr string
  | JArr "json list"
  | JObj "(string \<times> json) list"

text \<open>JavaScript truthiness of a parsed JSON value.\<close>

fun truthy :: "json \<Rightarrow> bool" where
  "truthy JNull = False"
| "truthy (JBool b) = b"
| "truthy (JNum n) = (n \<noteq> 0)"
| "truthy (JStr s) = (s \<noteq> [])"
| "truthy (JArr xs) = True"
| "truthy (JObj kvs) = True"

subsection \<open>Errors thrown by an axios request\<close>

text \<open>
  \<open>axios.isAxiosError(err) && err.response\<close> holds exactly for \<open>AxiosError (Some r)\<close>:
  the server answered, with a status outside 2xx. \<open>AxiosError None\<close> is a request that
  got no response; \<open>OtherError\<close> is any other thrown value.
\<close>

datatype axios_response = Response (status: nat) (data: json)

datatype js_error = AxiosError "axios_response option" | OtherError

section \<open>types/blog: \<open>BlogPost\<close>\<close>

text \<open>
  \<open>image?: string\<close> and \<open>hasComments?: Array<unknown> | null\<close> are optional: \<open>None\<close> is
  an absent (or null) property. The field \<open>id\<close> is \<open>post_id\<close> and \<open>image\<close> is
  \<open>post_image\<close> here, the plain names being constants of HOL.
\<close>

record BlogPost =
  post_id :: int
  post_title :: string
  post_content :: string
  post_image :: "string option"
  timestamp :: string
  post_authorName :: string
  hasComments :: "json list option"

section \<open>components/blog/BlogCard\<close>

definition FALLBACK_IMAGE :: string where
  "FALLBACK_IMAGE =
     ''https://images.unsplash.com/photo-1520607162513-77705c0f0d4a?auto=format&fit=crop&w=1200&q=80''"

text \<open>
  \<open>post.image && post.image.trim().length ? post.image : FALLBACK_IMAGE\<close>: an absent or
  empty image is falsy, and so is a trimmed length of zero.
\<close>

definition coverImage :: "BlogPost \<Rightarrow> string" where
  "coverImage post =
     (case post_image post of
        None \<Rightarrow> FALLBACK_IMAGE
      | Some img \<Rightarrow>
          if img \<noteq> [] \<and> length (trim img) \<noteq> 0 then img else FALLBACK_IMAGE)"

section \<open>Runtime library: dates and \<open>Array.prototype.sort\<close>\<close>

subsection \<open>\<open>new Date(s).getTime()\<close>\<close>

text \<open>
  A JavaScript number that is either an integer or \<open>NaN\<close> (\<open>None\<close>). The time value of
  a date is such a number: milliseconds since the epoch, or \<open>NaN\<close> for an invalid date.
  The difference of two time values is \<open>NaN\<close> as soon as one of them is; otherwise its
  sign, the only thing a sort observes, is the sign of the integer difference.
\<close>

type_synonym js_number = "int option"

definition js_minus :: "js_number \<Rightarrow> js_number \<Rightarrow> js_number" where
  "js_minus a b = (case (a, b) of (Some x, Some y) \<Rightarrow> Some (x - y) | _ \<Rightarrow> None)"

text \<open>
  Which strings parse is the engine's matter, so the feed sort below takes the function
  from a timestamp to its time value as a parameter. \<open>Date_getTime\<close> is the part every
  engine shares, the date-only form \<open>YYYY-MM-DD\<close> of the ECMAScript date-time string
  format, read as midnight UTC; it is used to evaluate the sort on concrete feeds.
  Engines read further forms (full date-times, and some of them days past the end of a
  month), for which this function gives \<open>NaN\<close>.
\<close>

definition digit_val :: "char \<Rightarrow> nat option" where
  "digit_val c = (let n = (of_char c :: nat) in if 48 \<le> n \<and> n \<le> 57 then Some (n - 48) else None)"

fun digits_val :: "string \<Rightarrow> nat option" where
  "digits_val [] = None"
| "digits_val [c] = digit_val c"
| "digits_val cs =
     (case (digits_val (butlast cs), digit_val (last cs)) of
        (Some n, Some d) \<Rightarrow> Some (10 * n + d)
      | _ \<Rightarrow> None)"

definition is_leap_year :: "nat \<Rightarrow> bool" where
  "is_leap_year y = (y mod 4 = 0 \<and> (y mod 100 \<noteq> 0 \<or> y mod 400 = 0))"

definition days_in_month :: "nat \<Rightarrow> nat \<Rightarrow> nat" where
  "days_in_month y m =
     (if m = 2 then (if is_leap_year y then 29 else 28)
      else if m \<in> {4, 6, 9, 11} then 30 else 31)"

text \<open>Days from 1970-01-01 to the given civil date.\<close>

definition days_from_civil :: "int \<Rightarrow> int \<Rightarrow> int \<Rightarrow> int" where
  "days_from_civil y m d =
     (let y' = (if m \<le> 2 then y - 1 else y);
          era = y' div 400;
          yoe = y' - era * 400;
          doy = (153 * (if m > 2 then m - 3 else m + 9) + 2) div 5 + d - 1;
          doe = yoe * 365 + yoe div 4 - yoe div 100 + doy
      in era * 146097 + doe - 719468)"

definition Date_getTime :: "string \<Rightarrow> js_number" where
  "Date_getTime s =
     (if length s = 10 \<and> s ! 4 = CHR ''-'' \<and> s ! 7 = CHR ''-'' then
        (case (digits_val (take 4 s), digits_val (take 2 (drop 5 s)), digits_val (drop 8 s)) of
           (Some y, Some m, Some d) \<Rightarrow>
             if 1 \<le> m \<and> m \<le> 12 \<and> 1 \<le> d \<and> d \<le> days_in_month y m
             then Some (days_from_civil (int y) (int m) (int d) * 86400000)
             else None
         | _ \<Rightarrow> None)
      else None)"

subsection \<open>\<open>Array.prototype.sort\<close> with a comparator\<close>

text \<open>
  The comparator's result goes through \<open>SortCompare\<close>, which reads \<open>NaN\<close> as \<open>+0\<close>.
  ECMAScript asks for a stable sort when the comparator is consistent and leaves the
  order to the engine when it is not. The model is the stable insertion sort: each
  element moves left past the elements that compare greater than it, and stops at the
  first that does not. On a consistent comparator every engine gives this order; on an
  inconsistent one engines may differ from it and from one another.
\<close>

definition SortCompare :: "('a \<Rightarrow> 'a \<Rightarrow> js_number) \<Rightarrow> 'a \<Rightarrow> 'a \<Rightarrow> int" where
  "SortCompare comparefn x y = (case comparefn x y of None \<Rightarrow> 0 | Some v \<Rightarrow> v)"

text \<open>\<open>insert_back\<close> works on the sorted prefix held in reverse, last element first.\<close>

fun insert_back :: "('a \<Rightarrow> 'a \<Rightarrow> js_number) \<Rightarrow> 'a \<Rightarrow> 'a list \<Rightarrow> 'a list" where
  "insert_back comparefn x [] = [x]"
| "insert_back comparefn x (y # ys) =
     (if SortCompare comparefn y x > 0 then y # insert_back comparefn x ys
      else x # y # ys)"

definition Array_sort :: "('a \<Rightarrow> 'a \<Rightarrow> js_number) \<Rightarrow> 'a list \<Rightarrow> 'a list" where
  "Array_sort comparefn xs = rev (foldl (\<lambda>placed x. insert_back comparefn x placed) [] xs)"

section \<open>pages/Home\<close>

subsection \<open>The feed sort\<close>

text \<open>
  \<open>(a, b) => new Date(b.timestamp).getTime() - new Date(a.timestamp).getTime()\<close>, with
  \<open>getTime\<close> the engine's reading of a timestamp.
\<close>

definition compare_posts :: "(string \<Rightarrow> js_number) \<Rightarrow> BlogPost \<Rightarrow> BlogPost \<Rightarrow> js_number" where
  "compare_posts getTime a b =
     (let left = getTime (timestamp a); right = getTime (timestamp b)
      in js_minus right left)"

definition sortedPosts :: "(string \<Rightarrow> js_number) \<Rightarrow> BlogPost list \<Rightarrow> BlogPost list" where
  "sortedPosts getTime posts = Array_sort (compare_posts getTime) posts"

text \<open>An entry is parseable when its timestamp has a time value.\<close>

definition parseable :: "(string \<Rightarrow> js_number) \<Rightarrow> BlogPost \<Rightarrow> bool" where
  "parseable getTime p = (getTime (timestamp p) \<noteq> None)"

text \<open>
  The two orderings the feed is meant to have, as predicates on a list: no parseable
  entry comes after an unparseable one; and of two parseable entries the one that
  comes first is not the earlier-dated one.
\<close>

fun unparseable_last :: "(string \<Rightarrow> js_number) \<Rightarrow> BlogPost list \<Rightarrow> bool" where
  "unparseable_last getTime [] = True"
| "unparseable_last getTime (p # ps) =
     ((parseable getTime p \<or> list_all (\<lambda>q. \<not> parseable getTime q) ps)
      \<and> unparseable_last getTime ps)"

definition not_earlier :: "(string \<Rightarrow> js_number) \<Rightarrow> BlogPost \<Rightarrow> BlogPost \<Rightarrow> bool" where
  "not_earlier getTime p q =
     (case (getTime (timestamp p), getTime (timestamp q)) of
        (Some t, Some u) \<Rightarrow> u \<le> t
      | _ \<Rightarrow> True)"

fun newest_first :: "(string \<Rightarrow> js_number) \<Rightarrow> BlogPost list \<Rightarrow> bool" where
  "newest_first getTime [] = True"
| "newest_first getTime (p # ps) =
     (list_all (not_earlier getTime p) ps \<and> newest_first getTime ps)"

subsection \<open>The feed loader\<close>

text \<open>
  The body of a resolved \<open>axios.get<BlogPost[]>\<close> is an array of posts, or a value for
  which \<open>Array.isArray\<close> is false: null, a boolean, a number, a string (also a body that
  is not JSON, which axios hands over as text) or an object.
\<close>

datatype non_array =
    NNull
  | NBool bool
  | NNum int
  | NStr string
  | NObj "(string \<times> json) list"

datatype response_data = ArrayData "BlogPost list" | OtherData non_array

fun Array_isArray :: "response_data \<Rightarrow> bool" where
  "Array_isArray (ArrayData ps) = True"
| "Array_isArray (OtherData v) = False"

datatype get_outcome = Resolved response_data | Rejected js_error

text \<open>
  The state of the page: the three \<open>useState\<close> cells, and what \<open>console.error\<close> was
  given.
\<close>

record Home =
  posts :: "BlogPost list"
  loading :: bool
  error :: "string option"
  console :: "js_error list"

definition Home_initial :: Home where
  "Home_initial = \<lparr>posts = [], loading = True, error = None, console = []\<rparr>"

definition LOAD_ERROR :: string where
  "LOAD_ERROR = ''Unable to load the blog feed right now. Please try again.''"

text \<open>
  \<open>loadPosts\<close>, from the call to the end of \<open>finally\<close>; the outcome of the awaited request
  is an argument.
\<close>

definition loadPosts :: "get_outcome \<Rightarrow> Home \<Rightarrow> Home" where
  "loadPosts outcome s =
     (let s1 = s\<lparr>loading := True, error := None\<rparr>;
          s2 = (case outcome of
                  Resolved d \<Rightarrow>
                    s1\<lparr>posts := (case d of ArrayData ps \<Rightarrow> ps | OtherData v \<Rightarrow> [])\<rparr>
                | Rejected err \<Rightarrow>
                    s1\<lparr>console := console s1 @ [err], error := Some LOAD_ERROR\<rparr>)
      in s2\<lparr>loading := False\<rparr>)"

text \<open>\<open>handleAddBlog\<close> navigates to this path.\<close>

definition handleAddBlog :: string where
  "handleAddBlog = ''/blog/create''"

section \<open>pages/BlogEditor\<close>

definition DEFAULT_IMAGE :: string where
  "DEFAULT_IMAGE =
     ''https://images.unsplash.com/photo-1520607162513-77705c0f0d4a?auto=format&fit=crop&w=1200&q=80''"

text \<open>The form's four fields; \<open>image\<close> is \<open>image_url\<close> here.\<close>

record BlogEditorState =
  title :: string
  authorName :: string
  content :: string
  image_url :: string

text \<open>
  The state of the page: the four \<open>useState\<close> cells, the bodies handed to \<open>axios.post\<close>
  and the navigations handed to \<open>window.setTimeout\<close>, with their delay. The error cell
  holds whatever \<open>setError\<close> was given, which can be the \<open>detail\<close> of a response body.
\<close>

record BlogEditor =
  formValues :: BlogEditorState
  submitting :: bool
  error :: "json option"
  success :: "string option"
  requests :: "json list"
  timeouts :: "(nat \<times> string) list"

definition blank_form :: BlogEditorState where
  "blank_form = \<lparr>title = [], authorName = [], content = [], image_url = []\<rparr>"

definition BlogEditor_initial :: BlogEditor where
  "BlogEditor_initial =
     \<lparr>formValues = blank_form, submitting = False, error = None, success = None,
      requests = [], timeouts = []\<rparr>"

text \<open>
  \<open>{ ...prev, [name]: value }\<close>. A name other than the four adds a property that nothing
  reads and leaves the four fields as they are.
\<close>

definition set_field :: "string \<Rightarrow> string \<Rightarrow> BlogEditorState \<Rightarrow> BlogEditorState" where
  "set_field name v prev =
     (if name = ''title'' then prev\<lparr>title := v\<rparr>
      else if name = ''authorName'' then prev\<lparr>authorName := v\<rparr>
      else if name = ''content'' then prev\<lparr>content := v\<rparr>
      else if name = ''image'' then prev\<lparr>image_url := v\<rparr>
      else prev)"

definition handleChange :: "string \<Rightarrow> string \<Rightarrow> BlogEditor \<Rightarrow> BlogEditor" where
  "handleChange name v s = s\<lparr>formValues := set_field name v (formValues s)\<rparr>"

definition VALIDATION_ERROR :: string where
  "VALIDATION_ERROR = ''Please complete the title, author, and content fields.''"

definition SERVER_REJECTED :: string where
  "SERVER_REJECTED = ''The server rejected this post. Please try again.''"

definition CONNECTION_ERROR :: string where
  "CONNECTION_ERROR = ''Unable to publish right now. Check your connection and try again.''"

definition PUBLISHED :: string where
  "PUBLISHED = ''Blog post published.''"

text \<open>
  \<open>(err.response.data as { detail?: string }).detail\<close>: reading a property of \<open>null\<close>
  throws a \<open>TypeError\<close>; an object gives the property or \<open>undefined\<close> (\<open>None\<close>); any
  other value has no such property.
\<close>

datatype type_error = TypeError

fun detail_of :: "json \<Rightarrow> type_error + json option" where
  "detail_of JNull = Inl TypeError"
| "detail_of (JObj kvs) = Inr (map_of kvs ''detail'')"
| "detail_of v = Inr None"

text \<open>\<open>detail || fallback\<close>.\<close>

definition or_else :: "json option \<Rightarrow> json \<Rightarrow> json" where
  "or_else detail fallback =
     (case detail of None \<Rightarrow> fallback | Some v \<Rightarrow> if truthy v then v else fallback)"

text \<open>The body of the create request; \<open>today\<close> is \<open>new Date().toISOString().split("T")[0]\<close>.\<close>

definition payload :: "string \<Rightarrow> BlogEditorState \<Rightarrow> json" where
  "payload today fv =
     JObj [(''title'', JStr (trim (title fv))),
           (''authorName'', JStr (trim (authorName fv))),
           (''content'', JStr (trim (content fv))),
           (''image'', JStr (if trim (image_url fv) \<noteq> [] then trim (image_url fv) else DEFAULT_IMAGE)),
           (''timestamp'', JStr today),
           (''hasComments'', JArr [])]"

datatype post_outcome = Fulfilled | Failed js_error

text \<open>
  The \<open>catch\<close> block. When reading \<open>detail\<close> throws, the block is left before \<open>setError\<close>
  and the state is as it was.
\<close>

definition on_error :: "js_error \<Rightarrow> BlogEditor \<Rightarrow> BlogEditor" where
  "on_error err s =
     (case err of
        AxiosError (Some response) \<Rightarrow>
          (case detail_of (data response) of
             Inl TypeError \<Rightarrow> s
           | Inr detail \<Rightarrow> s\<lparr>error := Some (or_else detail (JStr SERVER_REJECTED))\<rparr>)
      | _ \<Rightarrow> s\<lparr>error := Some (JStr CONNECTION_ERROR)\<rparr>)"

definition invalid_form :: "BlogEditorState \<Rightarrow> bool" where
  "invalid_form fv = (trim (title fv) = [] \<or> trim (authorName fv) = [] \<or> trim (content fv) = [])"

text \<open>
  \<open>handleSubmit\<close>, from the call to the end of \<open>finally\<close>; the outcome of the awaited
  request is an argument, read only when the request is made.
\<close>

definition handleSubmit :: "string \<Rightarrow> post_outcome \<Rightarrow> BlogEditor \<Rightarrow> BlogEditor" where
  "handleSubmit today outcome s =
     (if invalid_form (formValues s) then s\<lparr>error := Some (JStr VALIDATION_ERROR)\<rparr>
      else
        let s1 = s\<lparr>submitting := True, error := None\<rparr>;
            s2 = s1\<lparr>requests := requests s1 @ [payload today (formValues s)]\<rparr>;
            s3 = (case outcome of
                    Fulfilled \<Rightarrow>
                      s2\<lparr>success := Some PUBLISHED, formValues := blank_form,
                         timeouts := timeouts s2 @ [(800, ''/home'')]\<rparr>
                  | Failed err \<Rightarrow> on_error err s2)
        in s3\<lparr>submitting := False\<rparr>)"

text \<open>
  The states the page can be in between two events: the initial one, and those a change
  or a completed submit leads to. The submit button is disabled while \<open>submitting\<close>, so
  a submit starts only from such a state.
\<close>

inductive reachable :: "BlogEditor \<Rightarrow> bool" where
  initial: "reachable BlogEditor_initial"
| change: "reachable s \<Longrightarrow> reachable (handleChange name v s)"
| submit: "reachable s \<Longrightarrow> reachable (handleSubmit today outcome s)"

section \<open>App: the route table\<close>

text \<open>
  The pages of the repository, and what a route renders: a page, or \<open>Navigate\<close> to
  another path.
\<close>

datatype page = HomePage | BlogpostPage | BlogEditorPage

datatype route_element = Page page | Navigate string

definition App_routes :: "(string \<times> route_element) list" where
  "App_routes =
     [(''/home'', Page HomePage),
      (''/blogpost'', Page BlogpostPage),
      (''/'', Navigate ''/home''),
      (''*'', Navigate ''/home'')]"

text \<open>
  Route matching as the router does it for a flat table: a static pattern matches a
  path that equals it up to letter case and trailing slashes, \<open>*\<close> matches every path,
  and a static match is preferred to \<open>*\<close>, which the table lists last. A path is
  taken as already decoded: percent-escapes are not resolved here.
\<close>

definition lower :: "char \<Rightarrow> char" where
  "lower c = (let n = (of_char c :: nat) in if 65 \<le> n \<and> n \<le> 90 then char_of (n + 32) else c)"

definition normalise :: "string \<Rightarrow> string" where
  "normalise path = map lower (rev (dropWhile (\<lambda>c. c = CHR ''/'') (rev path)))"

definition matches :: "string \<Rightarrow> string \<Rightarrow> bool" where
  "matches pattern path = (pattern = ''*'' \<or> normalise pattern = normalise path)"

fun matchRoutes :: "(string \<times> route_element) list \<Rightarrow> string \<Rightarrow> route_element option" where
  "matchRoutes [] path = None"
| "matchRoutes ((pattern, element) # routes) path =
     (if matches pattern path then Some element else matchRoutes routes path)"

text \<open>
  The page shown for a path, following \<open>Navigate\<close> elements; \<open>None\<close> when no route
  matches or the redirects outnumber the fuel.
\<close>

fun shown :: "nat \<Rightarrow> string \<Rightarrow> page option" where
  "shown 0 path = None"
| "shown (Suc fuel) path =
     (case matchRoutes App_routes path of
        None \<Rightarrow> None
      | Some (Page p) \<Rightarrow> Some p
      | Some (Navigate to) \<Rightarrow> shown fuel to)"

section \<open>Sample inputs\<close>

text \<open>A post with a given identifier and timestamp, a filled-in form, a loaded feed.\<close>

definition entry :: "int \<Rightarrow> string \<Rightarrow> BlogPost" where
  "entry i ts =
     \<lparr>post_id = i, post_title = ''Title'', post_content = ''Body'', post_image = None,
      timestamp = ts, post_authorName = ''Ada'', hasComments = Some []\<rparr>"

definition draft :: BlogEditor where
  "draft = BlogEditor_initial\<lparr>formValues :=
     \<lparr>title = ''Models'', authorName = ''Ada'', content = ''Text'', image_url = []\<rparr>\<rparr>"

definition loaded_feed :: Home where
  "loaded_feed = Home_initial\<lparr>posts := [entry 1 ''2026-01-01''], loading := False\<rparr>"

section \<open>The card renderer\<close>

lemma trim_Nil: "trim [] = []"
  by (simp add: trim_def)

lemma trim_FALLBACK_IMAGE: "trim FALLBACK_IMAGE = FALLBACK_IMAGE"
  by (simp add: trim_def FALLBACK_IMAGE_def is_white_space_def)

lemma FALLBACK_IMAGE_not_blank: "trim FALLBACK_IMAGE \<noteq> []"
  by (simp add: trim_FALLBACK_IMAGE) (simp add: FALLBACK_IMAGE_def)

text \<open>
  Claim C9. For every post, the resolved cover image is the post's image when that field
  is present and not blank after trimming, it is the fixed fallback URL otherwise, and
  it is never blank.
\<close>

theorem coverImage_resolved:
  "(\<forall>img. post_image post = Some img \<and> trim img \<noteq> [] \<longrightarrow> coverImage post = img)
   \<and> ((post_image post = None \<or> (\<exists>img. post_image post = Some img \<and> trim img = []))
        \<longrightarrow> coverImage post = FALLBACK_IMAGE)
   \<and> trim (coverImage post) \<noteq> []"
proof (cases "post_image post")
  case None
  then show ?thesis
    by (simp add: coverImage_def FALLBACK_IMAGE_not_blank)
next
  case (Some img)
  show ?thesis
  proof (cases "trim img = []")
    case True
    with Some show ?thesis
      by (simp add: coverImage_def FALLBACK_IMAGE_not_blank)
  next
    case False
    then have "img \<noteq> []"
      using trim_Nil by auto
    with Some False show ?thesis
      by (simp add: coverImage_def)
  qed
qed

theorem coverImage_resolved_witness:
  "coverImage ((entry 1 ''2026-01-01'')\<lparr>post_image := Some '' /img/cover.png ''\<rparr>) = '' /img/cover.png ''
   \<and> coverImage ((entry 1 ''2026-01-01'')\<lparr>post_image := Some ''   ''\<rparr>) = FALLBACK_IMAGE
   \<and> coverImage (entry 1 ''2026-01-01'') = FALLBACK_IMAGE"
  using coverImage_resolved [of "(entry 1 ''2026-01-01'')\<lparr>post_image := Some '' /img/cover.png ''\<rparr>"]
    coverImage_resolved [of "(entry 1 ''2026-01-01'')\<lparr>post_image := Some ''   ''\<rparr>"]
    coverImage_resolved [of "entry 1 ''2026-01-01''"]
  by (simp add: entry_def trim_def is_white_space_def)

section \<open>The feed sort\<close>

lemma getTime_2026: "Date_getTime ''2026-01-01'' = Some 1767225600000"
  by (simp add: Date_getTime_def digit_val_def days_in_month_def days_from_civil_def)

lemma getTime_2025: "Date_getTime ''2025-06-01'' = Some 1748736000000"
  by (simp add: Date_getTime_def digit_val_def days_in_month_def days_from_civil_def)

lemma getTime_unknown: "Date_getTime ''unknown'' = None"
  by (simp add: Date_getTime_def)

lemma getTime_TBD: "Date_getTime ''TBD'' = None"
  by (simp add: Date_getTime_def)

lemmas getTime_samples = getTime_2026 getTime_2025 getTime_unknown getTime_TBD

subsection \<open>What the sort does on every feed\<close>

lemma mset_insert_back: "mset (insert_back c x ys) = add_mset x (mset ys)"
  by (induction ys) simp_all

lemma set_insert_back: "set (insert_back c x ys) = insert x (set ys)"
  using mset_insert_back [of c x ys] by (metis set_mset_add_mset_insert set_mset_mset)

lemma mset_foldl_insert_back:
  "mset (foldl (\<lambda>placed x. insert_back c x placed) acc xs) = mset acc + mset xs"
  by (induction xs arbitrary: acc) (simp_all add: mset_insert_back)

lemma mset_Array_sort: "mset (Array_sort c xs) = mset xs"
  by (simp add: Array_sort_def mset_foldl_insert_back)

text \<open>The sorted feed holds the posts of the feed, each as often as the feed does.\<close>

lemma mset_sortedPosts: "mset (sortedPosts getTime ps) = mset ps"
  by (simp add: sortedPosts_def mset_Array_sort)

subsection \<open>Feeds whose timestamps all parse\<close>

lemma newest_first_sorted_wrt: "newest_first getTime ps = sorted_wrt (not_earlier getTime) ps"
  by (induction ps) (auto simp add: list_all_iff)

lemma SortCompare_parseable:
  "parseable g a \<Longrightarrow> parseable g b \<Longrightarrow>
     (SortCompare (compare_posts g) a b > 0) = (\<not> not_earlier g a b)"
  by (auto simp add: SortCompare_def compare_posts_def js_minus_def parseable_def not_earlier_def)

lemma not_earlier_total: "\<not> not_earlier g a b \<Longrightarrow> not_earlier g b a"
  by (auto simp add: not_earlier_def split: option.splits)

lemma sorted_insert_back:
  assumes "parseable g x" "\<forall>y\<in>set ys. parseable g y"
    and "sorted_wrt (\<lambda>a b. not_earlier g b a) ys"
  shows "sorted_wrt (\<lambda>a b. not_earlier g b a) (insert_back (compare_posts g) x ys)"
  using assms
proof (induction ys)
  case Nil
  then show ?case by simp
next
  case (Cons y ys)
  show ?case
  proof (cases "SortCompare (compare_posts g) y x > 0")
    case True
    with Cons.prems have "\<not> not_earlier g y x"
      by (simp add: SortCompare_parseable)
    then have xy: "not_earlier g x y"
      by (rule not_earlier_total)
    from Cons have "sorted_wrt (\<lambda>a b. not_earlier g b a) (insert_back (compare_posts g) x ys)"
      by simp
    with True xy Cons.prems show ?thesis
      by (auto simp add: set_insert_back)
  next
    case False
    with Cons.prems have yx: "not_earlier g y x"
      by (simp add: SortCompare_parseable)
    have "not_earlier g z x" if "z \<in> set ys" for z
    proof -
      from that Cons.prems
      have "not_earlier g z y" "parseable g z" "parseable g y" "parseable g x"
        by auto
      with yx show ?thesis
        by (auto simp add: not_earlier_def parseable_def)
    qed
    with False yx Cons.prems show ?thesis
      by auto
  qed
qed

lemma sorted_foldl_insert_back:
  assumes "\<forall>y\<in>set acc \<union> set xs. parseable g y"
    and "sorted_wrt (\<lambda>a b. not_earlier g b a) acc"
  shows "sorted_wrt (\<lambda>a b. not_earlier g b a)
           (foldl (\<lambda>placed x. insert_back (compare_posts g) x placed) acc xs)"
  using assms
proof (induction xs arbitrary: acc)
  case Nil
  then show ?case by simp
next
  case (Cons x xs)
  from Cons.prems
  have "sorted_wrt (\<lambda>a b. not_earlier g b a) (insert_back (compare_posts g) x acc)"
    by (intro sorted_insert_back) auto
  moreover from Cons.prems
  have "\<forall>y\<in>set (insert_back (compare_posts g) x acc) \<union> set xs. parseable g y"
    by (auto simp add: set_insert_back)
  ultimately show ?case
    using Cons.IH by simp
qed

text \<open>
  When every timestamp of the feed parses, the comparator is consistent and the sorted
  feed is newest first.
\<close>

lemma sortedPosts_newest_first:
  assumes "\<forall>p\<in>set ps. parseable g p"
  shows "newest_first g (sortedPosts g ps)"
proof -
  from assms
  have "sorted_wrt (\<lambda>a b. not_earlier g b a)
          (foldl (\<lambda>placed x. insert_back (compare_posts g) x placed) [] ps)"
    by (intro sorted_foldl_insert_back) auto
  then show ?thesis
    by (simp add: newest_first_sorted_wrt sortedPosts_def Array_sort_def sorted_wrt_rev)
qed

subsection \<open>Feeds with a timestamp that does not parse\<close>

text \<open>
  Claim C1. In the sorted feed every entry whose timestamp does not parse comes after
  every entry whose timestamp parses. The comparator gives \<open>NaN\<close> for such an entry,
  which the sort reads as "equal": on the feed below the unparseable entry is first
  and stays first.
\<close>

theorem unparseable_stays_first:
  "sortedPosts Date_getTime [entry 1 ''unknown'', entry 2 ''2026-01-01'']
     = [entry 1 ''unknown'', entry 2 ''2026-01-01'']
   \<and> \<not> parseable Date_getTime (entry 1 ''unknown'')
   \<and> parseable Date_getTime (entry 2 ''2026-01-01'')
   \<and> \<not> unparseable_last Date_getTime
         (sortedPosts Date_getTime [entry 1 ''unknown'', entry 2 ''2026-01-01''])"
  by (simp add: sortedPosts_def Array_sort_def SortCompare_def compare_posts_def js_minus_def
                parseable_def entry_def getTime_samples)

text \<open>
  Claim C4. For every feed and every two entries whose timestamps parse, the sorted feed
  never has the earlier-dated entry before the later-dated one. On the feed below two
  unparseable entries stand between a post of 2025 and a post of 2026; each neighbour
  compares "equal" to the next, nothing moves, and 2025 stays before 2026.
\<close>

theorem earlier_stays_before_later:
  "sortedPosts Date_getTime
       [entry 1 ''2025-06-01'', entry 2 ''unknown'', entry 3 ''TBD'', entry 4 ''2026-01-01'']
     = [entry 1 ''2025-06-01'', entry 2 ''unknown'', entry 3 ''TBD'', entry 4 ''2026-01-01'']
   \<and> \<not> newest_first Date_getTime
         (sortedPosts Date_getTime
            [entry 1 ''2025-06-01'', entry 2 ''unknown'', entry 3 ''TBD'', entry 4 ''2026-01-01''])"
  by (simp add: sortedPosts_def Array_sort_def SortCompare_def compare_posts_def js_minus_def
                not_earlier_def entry_def getTime_samples)

section \<open>The feed loader\<close>

text \<open>
  Claim C7. For every failing feed load (network error, status outside 2xx, or malformed
  body) the held posts are what they were before the call and the single fixed error
  message is set. A response with status 2xx whose body is malformed is not a failure
  of the request: the body arrives as a value that is not an array, the held posts are
  replaced by the empty list and no error is set.
\<close>

theorem malformed_body_counterexample:
  "posts (loadPosts (Resolved (OtherData (NStr ''<!doctype html><title>Blog</title>''))) loaded_feed)
     \<noteq> posts loaded_feed
   \<and> Home.error (loadPosts (Resolved (OtherData (NStr ''<!doctype html><title>Blog</title>''))) loaded_feed)
     = None"
  by (simp add: loadPosts_def Let_def loaded_feed_def Home_initial_def)

text \<open>
  Claim C7, amended. For every feed load whose request is rejected (no response, or a
  status outside 2xx) the held posts are what they were before the call and the single
  fixed error message is set.
\<close>

theorem loadPosts_rejected:
  "posts (loadPosts (Rejected err) s) = posts s
   \<and> Home.error (loadPosts (Rejected err) s) = Some LOAD_ERROR"
  by (simp add: loadPosts_def Let_def)

text \<open>
  Claim C8. For every response whose body is not an array, a successful load leaves an
  empty post collection and no error message.
\<close>

theorem loadPosts_non_array:
  assumes "\<not> Array_isArray d"
  shows "posts (loadPosts (Resolved d) s) = [] \<and> Home.error (loadPosts (Resolved d) s) = None"
  using assms by (cases d) (simp_all add: loadPosts_def Let_def)

theorem loadPosts_non_array_witness:
  "\<not> Array_isArray (OtherData (NObj [(''posts'', JArr [])]))
   \<and> posts (loadPosts (Resolved (OtherData (NObj [(''posts'', JArr [])]))) loaded_feed) = []
   \<and> Home.error (loadPosts (Resolved (OtherData (NObj [(''posts'', JArr [])]))) loaded_feed) = None"
  using loadPosts_non_array [of "OtherData (NObj [(''posts'', JArr [])])" loaded_feed]
  by simp

section \<open>The composer\<close>

text \<open>
  Claim C10. For every form state and every change event that names one of the four
  fields, the change handler gives the named field the event's value and leaves the
  other three fields as they were.
\<close>

theorem handleChange_frame:
  assumes "name \<in> {''title'', ''authorName'', ''content'', ''image''}"
  shows "title (formValues (handleChange name v s))
           = (if name = ''title'' then v else title (formValues s))
    \<and> authorName (formValues (handleChange name v s))
           = (if name = ''authorName'' then v else authorName (formValues s))
    \<and> content (formValues (handleChange name v s))
           = (if name = ''content'' then v else content (formValues s))
    \<and> image_url (formValues (handleChange name v s))
           = (if name = ''image'' then v else image_url (formValues s))"
  using assms by (auto simp add: handleChange_def set_field_def)

theorem handleChange_frame_witness:
  "title (formValues (handleChange ''content'' ''Hello'' draft)) = ''Models''
   \<and> authorName (formValues (handleChange ''content'' ''Hello'' draft)) = ''Ada''
   \<and> content (formValues (handleChange ''content'' ''Hello'' draft)) = ''Hello''
   \<and> image_url (formValues (handleChange ''content'' ''Hello'' draft)) = []"
  using handleChange_frame [of "''content''" "''Hello''" draft]
  by (simp add: draft_def)

lemma handleSubmit_invalid_eq:
  "invalid_form (formValues s) \<Longrightarrow>
     handleSubmit today outcome s = s\<lparr>error := Some (JStr VALIDATION_ERROR)\<rparr>"
  by (simp add: handleSubmit_def)

lemma submitting_on_error: "submitting (on_error err s) = submitting s"
  by (simp add: on_error_def split: js_error.splits option.splits sum.splits type_error.splits)

lemma handleSubmit_valid_clears:
  "\<not> invalid_form (formValues s) \<Longrightarrow> submitting (handleSubmit today outcome s) = False"
  by (simp add: handleSubmit_def Let_def)

lemma handleSubmit_keeps_idle:
  "\<not> submitting s \<Longrightarrow> \<not> submitting (handleSubmit today outcome s)"
  by (cases "invalid_form (formValues s)")
     (simp_all add: handleSubmit_invalid_eq handleSubmit_valid_clears)

lemma reachable_idle: "reachable s \<Longrightarrow> \<not> submitting s"
proof (induction rule: reachable.induct)
  case initial
  show ?case by (simp add: BlogEditor_initial_def)
next
  case (change s name v)
  then show ?case by (simp add: handleChange_def)
next
  case (submit s today outcome)
  from submit.IH show ?case by (rule handleSubmit_keeps_idle)
qed

lemma draft_valid: "\<not> invalid_form (formValues draft)"
  by (simp add: draft_def invalid_form_def trim_def is_white_space_def)

lemma draft_reachable: "reachable draft"
proof -
  have "draft = handleChange ''content'' ''Text'' (handleChange ''authorName'' ''Ada''
                  (handleChange ''title'' ''Models'' BlogEditor_initial))"
    by (simp add: draft_def handleChange_def set_field_def BlogEditor_initial_def blank_form_def)
  moreover have "reachable (handleChange ''content'' ''Text'' (handleChange ''authorName'' ''Ada''
                  (handleChange ''title'' ''Models'' BlogEditor_initial)))"
    by (intro reachable.intros)
  ultimately show ?thesis
    by simp
qed

text \<open>
  Claim C5. After every terminal outcome of a submit (success, validation failure, or a
  request that throws or is rejected) the submitting flag is false. A submit starts from
  a state the page can be in between two events.
\<close>

theorem submitting_cleared:
  "reachable s \<Longrightarrow> submitting (handleSubmit today outcome s) = False"
  using handleSubmit_keeps_idle [OF reachable_idle] by simp

theorem submitting_cleared_witness:
  "reachable draft
   \<and> submitting (handleSubmit ''2026-11-01'' Fulfilled draft) = False
   \<and> submitting (handleSubmit ''2026-11-01'' (Failed OtherError) draft) = False
   \<and> submitting (handleSubmit ''2026-11-01'' Fulfilled BlogEditor_initial) = False"
  using draft_reachable reachable.initial
    submitting_cleared [OF draft_reachable, of "''2026-11-01''" Fulfilled]
    submitting_cleared [OF draft_reachable, of "''2026-11-01''" "Failed OtherError"]
    submitting_cleared [OF reachable.initial, of "''2026-11-01''" Fulfilled]
  by simp

text \<open>
  Claim C6. For every form in which the title, the author name or the content trims to
  the empty string, a submit makes no request, sets the fixed validation message and
  leaves the entered field values as they were.
\<close>

theorem handleSubmit_invalid:
  assumes "trim (title (formValues s)) = [] \<or> trim (authorName (formValues s)) = []
           \<or> trim (content (formValues s)) = []"
  shows "requests (handleSubmit today outcome s) = requests s
    \<and> error (handleSubmit today outcome s) = Some (JStr VALIDATION_ERROR)
    \<and> formValues (handleSubmit today outcome s) = formValues s"
proof -
  from assms have "invalid_form (formValues s)"
    by (simp add: invalid_form_def)
  then show ?thesis
    by (simp add: handleSubmit_invalid_eq)
qed

theorem handleSubmit_invalid_witness:
  "trim (authorName (formValues (handleChange ''authorName'' ''  '' draft))) = []
   \<and> requests (handleSubmit ''2026-11-01'' Fulfilled (handleChange ''authorName'' ''  '' draft)) = []
   \<and> error (handleSubmit ''2026-11-01'' Fulfilled (handleChange ''authorName'' ''  '' draft))
       = Some (JStr VALIDATION_ERROR)
   \<and> authorName (formValues
        (handleSubmit ''2026-11-01'' Fulfilled (handleChange ''authorName'' ''  '' draft))) = ''  ''"
proof -
  have blank: "trim (authorName (formValues (handleChange ''authorName'' ''  '' draft))) = []"
    by (simp add: handleChange_def set_field_def trim_def is_white_space_def)
  with handleSubmit_invalid [of "handleChange ''authorName'' ''  '' draft" "''2026-11-01''" Fulfilled]
  show ?thesis
    by (simp add: handleChange_def set_field_def draft_def BlogEditor_initial_def)
qed

lemma error_failed:
  "\<not> invalid_form (formValues s) \<Longrightarrow>
     error (handleSubmit today (Failed err) s)
       = error (on_error err (s\<lparr>submitting := True, error := None,
                                requests := requests s @ [payload today (formValues s)]\<rparr>))"
  by (simp add: handleSubmit_def Let_def)

text \<open>
  Claim C2. When the create request fails and the backend answered with a body that has
  a \<open>detail\<close> string, exactly that string is the error message; otherwise the error is
  the single fixed connectivity message. A response whose body has no \<open>detail\<close> gives
  another fixed message, that the server rejected the post.
\<close>

theorem no_detail_counterexample:
  "error (handleSubmit ''2026-11-01''
            (Failed (AxiosError (Some (Response 500 (JObj [(''message'', JStr ''boom'')]))))) draft)
     \<noteq> Some (JStr CONNECTION_ERROR)"
  by (simp add: error_failed draft_valid on_error_def or_else_def
                SERVER_REJECTED_def CONNECTION_ERROR_def)

text \<open>
  Claim C2, amended. When the create request fails: if the backend answered with an
  object whose \<open>detail\<close> is a non-empty string, exactly that string is the error message;
  if it answered with a body other than \<open>null\<close> in which \<open>detail\<close> is absent or falsy (an
  empty string among them), the error is the fixed message that the server rejected
  the post; if there was no response, the error is the fixed connectivity message.
\<close>

theorem failure_message:
  assumes "\<not> invalid_form (formValues s)"
  shows "(\<forall>kvs d. data response = JObj kvs \<and> map_of kvs ''detail'' = Some (JStr d) \<and> d \<noteq> [] \<longrightarrow>
            error (handleSubmit today (Failed (AxiosError (Some response))) s) = Some (JStr d))
    \<and> (data response \<noteq> JNull
         \<and> (\<forall>kvs v. data response = JObj kvs \<and> map_of kvs ''detail'' = Some v \<longrightarrow> \<not> truthy v) \<longrightarrow>
            error (handleSubmit today (Failed (AxiosError (Some response))) s)
              = Some (JStr SERVER_REJECTED))
    \<and> error (handleSubmit today (Failed (AxiosError None)) s) = Some (JStr CONNECTION_ERROR)
    \<and> error (handleSubmit today (Failed OtherError) s) = Some (JStr CONNECTION_ERROR)"
proof -
  let ?e = "error (handleSubmit today (Failed (AxiosError (Some response))) s)"
  have verbatim: "?e = Some (JStr d)"
    if "data response = JObj kvs" "map_of kvs ''detail'' = Some (JStr d)" "d \<noteq> []" for kvs d
    using assms that by (simp add: error_failed on_error_def or_else_def)
  have rejected: "?e = Some (JStr SERVER_REJECTED)"
    if "data response \<noteq> JNull"
      and "\<forall>kvs v. data response = JObj kvs \<and> map_of kvs ''detail'' = Some v \<longrightarrow> \<not> truthy v"
  proof (cases "data response")
    case (JObj kvs)
    with that have "or_else (map_of kvs ''detail'') (JStr SERVER_REJECTED) = JStr SERVER_REJECTED"
      by (cases "map_of kvs ''detail''") (simp_all add: or_else_def)
    with JObj assms show ?thesis
      by (simp add: error_failed on_error_def)
  qed (use assms that in \<open>simp_all add: error_failed on_error_def or_else_def\<close>)
  have silent: "error (handleSubmit today (Failed (AxiosError None)) s) = Some (JStr CONNECTION_ERROR)"
    "error (handleSubmit today (Failed OtherError) s) = Some (JStr CONNECTION_ERROR)"
    using assms by (simp_all add: error_failed on_error_def)
  from verbatim rejected silent show ?thesis
    by blast
qed

theorem failure_message_witness:
  "\<not> invalid_form (formValues draft)
   \<and> error (handleSubmit ''2026-11-01''
        (Failed (AxiosError (Some (Response 400 (JObj [(''detail'', JStr ''title too long'')]))))) draft)
       = Some (JStr ''title too long'')
   \<and> error (handleSubmit ''2026-11-01''
        (Failed (AxiosError (Some (Response 500 (JObj [(''message'', JStr ''boom'')]))))) draft)
       = Some (JStr SERVER_REJECTED)
   \<and> error (handleSubmit ''2026-11-01''
        (Failed (AxiosError (Some (Response 400 (JObj [(''detail'', JStr [])]))))) draft)
       = Some (JStr SERVER_REJECTED)
   \<and> error (handleSubmit ''2026-11-01''
        (Failed (AxiosError (Some (Response 502 (JStr ''Bad Gateway''))))) draft)
       = Some (JStr SERVER_REJECTED)
   \<and> error (handleSubmit ''2026-11-01'' (Failed (AxiosError None)) draft)
       = Some (JStr CONNECTION_ERROR)"
  using draft_valid
    failure_message [OF draft_valid, of "Response 400 (JObj [(''detail'', JStr ''title too long'')])"]
    failure_message [OF draft_valid, of "Response 500 (JObj [(''message'', JStr ''boom'')])"]
    failure_message [OF draft_valid, of "Response 400 (JObj [(''detail'', JStr [])])"]
    failure_message [OF draft_valid, of "Response 502 (JStr ''Bad Gateway'')"]
  by simp

text \<open>
  A \<open>null\<close> body is outside the three cases: reading its \<open>detail\<close> throws inside the
  \<open>catch\<close> block, and no message is set.
\<close>

lemma null_body_sets_no_message:
  "\<not> invalid_form (formValues s) \<Longrightarrow>
     error (handleSubmit today (Failed (AxiosError (Some (Response st JNull)))) s) = None"
  by (simp add: error_failed on_error_def)

section \<open>The route table\<close>

lemma matchRoutes_home: "matchRoutes App_routes ''/home'' = Some (Page HomePage)"
  by (simp add: App_routes_def matches_def)

lemma matchRoutes_cases:
  "matchRoutes App_routes path
     \<in> {Some (Page HomePage), Some (Page BlogpostPage), Some (Navigate ''/home'')}"
  by (simp add: App_routes_def matches_def)

text \<open>Every path shows the feed or the curated page, after one redirect at most.\<close>

lemma shown_feed_or_curated: "shown (Suc (Suc fuel)) path \<in> {Some HomePage, Some BlogpostPage}"
  using matchRoutes_cases [of path] by (auto simp add: matchRoutes_home)

text \<open>No path shows the editor.\<close>

lemma never_editor: "shown fuel path \<noteq> Some BlogEditorPage"
proof (induction fuel arbitrary: path)
  case 0
  show ?case by simp
next
  case (Suc fuel)
  from matchRoutes_cases [of path] Suc show ?case by auto
qed

text \<open>
  Claim C3. The routes provide a feed view, a creation view and a curated-content view,
  unknown paths redirect to the feed, and the path of the feed's "Add Blog" action
  reaches the creation view. The table has no route for the editor: the path of "Add
  Blog" falls to \<open>*\<close> and shows the feed again.
\<close>

theorem add_blog_shows_home: "shown 2 handleAddBlog = Some HomePage"
  by (simp add: numeral_2_eq_2 handleAddBlog_def App_routes_def matches_def normalise_def lower_def)

end
